theory Spec2Isabelle
  imports Complex_Main
begin

section \<open>The network: a tree of modules\<close>

text \<open>
  The adaptation code of \<^verbatim>\<open>cifar/utils/bnm_utils.py\<close> works on a \<^verbatim>\<open>torch.nn.Module\<close>:
  a tree of layers, each with a training flag, named parameters, named buffers and named
  children. A parameter carries its tensor and the flag \<^verbatim>\<open>requires_grad\<close>. Tensors are
  kept abstract (the type variable \<open>'t\<close>): no claim below computes with their entries.

  \<^verbatim>\<open>nn.BatchNorm2d\<close> is a leaf of the tree. Its parameters are \<^verbatim>\<open>weight\<close> (scale) and
  \<^verbatim>\<open>bias\<close> (shift), both absent when the layer is not affine; its buffers are
  \<^verbatim>\<open>running_mean\<close>, \<^verbatim>\<open>running_var\<close> and \<^verbatim>\<open>num_batches_tracked\<close>, each of which may be
  \<^verbatim>\<open>None\<close>. Every other layer is a \<open>Module\<close> with association lists in registration order.
\<close>

datatype 't param = Param (data: 't) (requires_grad: bool)

datatype 't module =
    BatchNorm2d (training: bool) (weight: "'t param option") (bias: "'t param option")
      (track_running_stats: bool) (running_mean: "'t option") (running_var: "'t option")
      (num_batches_tracked: "'t option")
  | Module (training: bool) (parameters: "(string \<times> 't param) list")
      (buffers: "(string \<times> 't) list") (children: "(string \<times> 't module) list")

datatype error =
    AssertionError string
  | Exception string
  | RuntimeError string
  | ValueError string

text \<open>Qualified names: \<^verbatim>\<open>prefix + ('.' if prefix else '') + name\<close>.\<close>

definition qual :: "string \<Rightarrow> string \<Rightarrow> string" where
  "qual prefix name = (if prefix = [] then name else prefix @ ''.'' @ name)"

text \<open>\<^verbatim>\<open>Module.named_modules(prefix)\<close>: the module itself, then its children, depth first.\<close>

fun named_modules :: "string \<Rightarrow> 't module \<Rightarrow> (string \<times> 't module) list" where
  "named_modules prefix (BatchNorm2d tr w b trs rm rv nbt) =
     [(prefix, BatchNorm2d tr w b trs rm rv nbt)]"
| "named_modules prefix (Module tr ps bs cs) =
     (prefix, Module tr ps bs cs) #
     concat (map (\<lambda>(n, c). named_modules (qual prefix n) c) cs)"

definition modules :: "'t module \<Rightarrow> 't module list" where
  "modules m = map snd (named_modules [] m)"

text \<open>The parameters registered on one layer itself (\<^verbatim>\<open>_parameters\<close>, entries that are not None).\<close>

fun own_parameters :: "'t module \<Rightarrow> (string \<times> 't param) list" where
  "own_parameters (BatchNorm2d tr w b trs rm rv nbt) =
     (case w of None \<Rightarrow> [] | Some p \<Rightarrow> [(''weight'', p)]) @
     (case b of None \<Rightarrow> [] | Some p \<Rightarrow> [(''bias'', p)])"
| "own_parameters (Module tr ps bs cs) = ps"

text \<open>\<^verbatim>\<open>Module.named_parameters()\<close> walks \<^verbatim>\<open>named_modules\<close> and qualifies each name.\<close>

definition named_parameters_from :: "string \<Rightarrow> 't module \<Rightarrow> (string \<times> 't param) list" where
  "named_parameters_from prefix m =
     concat (map (\<lambda>(nm, l). map (\<lambda>(np, p). (qual nm np, p)) (own_parameters l))
               (named_modules prefix m))"

definition named_parameters :: "'t module \<Rightarrow> (string \<times> 't param) list" where
  "named_parameters m = named_parameters_from [] m"

definition parameters_of :: "'t module \<Rightarrow> 't param list" where
  "parameters_of m = map snd (named_parameters m)"

text \<open>\<^verbatim>\<open>Module.train(mode)\<close> sets the flag on the module and on every descendant.\<close>

fun train :: "bool \<Rightarrow> 't module \<Rightarrow> 't module" where
  "train mode (BatchNorm2d tr w b trs rm rv nbt) = BatchNorm2d mode w b trs rm rv nbt"
| "train mode (Module tr ps bs cs) =
     Module mode ps bs (map (\<lambda>(n, c). (n, train mode c)) cs)"

text \<open>
  A map over every parameter of the tree, given its qualified name. In-place updates of
  parameters (\<^verbatim>\<open>requires_grad_\<close>, an optimizer step, \<^verbatim>\<open>load_state_dict\<close>) are instances.
\<close>

fun map_params :: "(string \<Rightarrow> 't param \<Rightarrow> 't param) \<Rightarrow> string \<Rightarrow> 't module \<Rightarrow> 't module" where
  "map_params f prefix (BatchNorm2d tr w b trs rm rv nbt) =
     BatchNorm2d tr (map_option (f (qual prefix ''weight'')) w)
       (map_option (f (qual prefix ''bias'')) b) trs rm rv nbt"
| "map_params f prefix (Module tr ps bs cs) =
     Module tr (map (\<lambda>(n, p). (n, f (qual prefix n) p)) ps) bs
       (map (\<lambda>(n, c). (n, map_params f (qual prefix n) c)) cs)"

text \<open>\<^verbatim>\<open>Module.requires_grad_(flag)\<close>: \<^verbatim>\<open>for p in self.parameters(): p.requires_grad_(flag)\<close>.\<close>

definition set_requires_grad :: "bool \<Rightarrow> 't module \<Rightarrow> 't module" where
  "set_requires_grad flag m = map_params (\<lambda>_ p. Param (data p) flag) [] m"

section \<open>Configuring, checking and collecting\<close>

text \<open>
  The loop of \<^verbatim>\<open>configure_model\<close> over \<^verbatim>\<open>model.modules()\<close>: every \<^verbatim>\<open>BatchNorm2d\<close> gets its
  gradients enabled, stops tracking running statistics and drops the two running estimates;
  other layers are left as they are.
\<close>

fun configure_norm :: "'t module \<Rightarrow> 't module" where
  "configure_norm (BatchNorm2d tr w b trs rm rv nbt) =
     (let m = set_requires_grad True (BatchNorm2d tr w b trs rm rv nbt)
      in BatchNorm2d (training m) (weight m) (bias m) False None None (num_batches_tracked m))"
| "configure_norm (Module tr ps bs cs) =
     Module tr ps bs (map (\<lambda>(n, c). (n, configure_norm c)) cs)"

definition configure_model :: "'t module \<Rightarrow> 't module" where
  "configure_model model =
     (let model = train True model;
          model = set_requires_grad False model
      in configure_norm model)"

fun is_BatchNorm2d :: "'t module \<Rightarrow> bool" where
  "is_BatchNorm2d (BatchNorm2d tr w b trs rm rv nbt) = True"
| "is_BatchNorm2d (Module tr ps bs cs) = False"

definition check_model :: "'t module \<Rightarrow> error + unit" where
  "check_model model =
     (let is_training = training model in
      if \<not> is_training then Inl (AssertionError ''BNM needs train mode: call model.train()'')
      else
        let param_grads = map requires_grad (parameters_of model);
            has_any_params = list_ex (\<lambda>g. g) param_grads;
            has_all_params = list_all (\<lambda>g. g) param_grads in
        if \<not> has_any_params
        then Inl (AssertionError ''BNM needs params to update: check which require grad'')
        else if has_all_params
        then Inl (AssertionError ''BNM should not update all params: check which require grad'')
        else
          let has_bn = list_ex (\<lambda>b. b) (map is_BatchNorm2d (modules model)) in
          if \<not> has_bn then Inl (AssertionError ''BNM needs normalization for its optimization'')
          else Inr ())"

text \<open>
  \<^verbatim>\<open>collect_params\<close> returns the parameters and their names. A parameter object is
  identified here by its qualified name in \<^verbatim>\<open>named_parameters\<close>; the second list holds the
  names as the function formats them (\<^verbatim>\<open>f"{nm}.{np}"\<close> in the batch-norm branch).
\<close>

definition collect_params :: "'t module \<Rightarrow> bool \<Rightarrow> string list \<times> string list" where
  "collect_params model bn_only =
     (if bn_only
      then
        (let found = concat (map (\<lambda>(nm, m).
                       if is_BatchNorm2d m
                       then map (\<lambda>(np, p). (qual nm np, nm @ ''.'' @ np))
                              (filter (\<lambda>(np, p). np \<in> set [''weight'', ''bias''])
                                 (own_parameters m))
                       else [])
                     (named_modules [] model))
         in (map fst found, map snd found))
      else
        (let found = map (\<lambda>(nm, p). (nm, nm)) (named_parameters model)
         in (map fst found, map snd found)))"

section \<open>State dictionaries\<close>

text \<open>The buffers registered on one layer itself that are not None.\<close>

fun own_buffers :: "'t module \<Rightarrow> (string \<times> 't) list" where
  "own_buffers (BatchNorm2d tr w b trs rm rv nbt) =
     (case rm of None \<Rightarrow> [] | Some v \<Rightarrow> [(''running_mean'', v)]) @
     (case rv of None \<Rightarrow> [] | Some v \<Rightarrow> [(''running_var'', v)]) @
     (case nbt of None \<Rightarrow> [] | Some v \<Rightarrow> [(''num_batches_tracked'', v)])"
| "own_buffers (Module tr ps bs cs) = bs"

text \<open>
  \<^verbatim>\<open>Module.state_dict()\<close>: for every module in traversal order, its parameters' tensors and
  then its buffers, under qualified names.
\<close>

definition own_state :: "'t module \<Rightarrow> (string \<times> 't) list" where
  "own_state l = map (\<lambda>(n, p). (n, data p)) (own_parameters l) @ own_buffers l"

definition state_dict_from :: "string \<Rightarrow> 't module \<Rightarrow> (string \<times> 't) list" where
  "state_dict_from prefix m =
     concat (map (\<lambda>(nm, l). map (\<lambda>(k, v). (qual nm k, v)) (own_state l))
               (named_modules prefix m))"

definition state_dict :: "'t module \<Rightarrow> (string \<times> 't) list" where
  "state_dict m = state_dict_from [] m"

text \<open>
  \<^verbatim>\<open>Module.load_state_dict(state_dict, strict=True)\<close> copies each entry into the parameter or
  buffer of that name (\<^verbatim>\<open>param.copy_(input_param)\<close>: the flag \<^verbatim>\<open>requires_grad\<close> stays), and
  raises when a key of the model is missing or a key of the dictionary is unexpected.
\<close>

definition load_param :: "(string \<times> 't) list \<Rightarrow> string \<Rightarrow> 't param \<Rightarrow> 't param" where
  "load_param sd key p =
     (case map_of sd key of None \<Rightarrow> p | Some v \<Rightarrow> Param v (requires_grad p))"

definition load_buffer :: "(string \<times> 't) list \<Rightarrow> string \<Rightarrow> 't \<Rightarrow> 't" where
  "load_buffer sd key v = (case map_of sd key of None \<Rightarrow> v | Some v' \<Rightarrow> v')"

fun load_from_state_dict :: "(string \<times> 't) list \<Rightarrow> string \<Rightarrow> 't module \<Rightarrow> 't module" where
  "load_from_state_dict sd prefix (BatchNorm2d tr w b trs rm rv nbt) =
     BatchNorm2d tr
       (map_option (load_param sd (qual prefix ''weight'')) w)
       (map_option (load_param sd (qual prefix ''bias'')) b) trs
       (map_option (load_buffer sd (qual prefix ''running_mean'')) rm)
       (map_option (load_buffer sd (qual prefix ''running_var'')) rv)
       (map_option (load_buffer sd (qual prefix ''num_batches_tracked'')) nbt)"
| "load_from_state_dict sd prefix (Module tr ps bs cs) =
     Module tr
       (map (\<lambda>(n, p). (n, load_param sd (qual prefix n) p)) ps)
       (map (\<lambda>(n, v). (n, load_buffer sd (qual prefix n) v)) bs)
       (map (\<lambda>(n, c). (n, load_from_state_dict sd (qual prefix n) c)) cs)"

definition load_state_dict :: "'t module \<Rightarrow> (string \<times> 't) list \<Rightarrow> error + 't module" where
  "load_state_dict m sd =
     (let expected = map fst (state_dict m);
          missing_keys = filter (\<lambda>k. k \<notin> set (map fst sd)) expected;
          unexpected_keys = filter (\<lambda>k. k \<notin> set expected) (map fst sd)
      in if missing_keys = [] \<and> unexpected_keys = []
         then Inr (load_from_state_dict sd [] m)
         else Inl (RuntimeError ''Error(s) in loading state_dict''))"

section \<open>The optimizer\<close>

text \<open>
  \<^verbatim>\<open>optim.Adam\<close> with one parameter group: the parameters it was given (by qualified name),
  the options of the group, and its per-parameter state (step count and moment estimates,
  kept abstract as \<open>'s\<close>). Its \<^verbatim>\<open>state_dict()\<close> stores the state by parameter index.
\<close>

record hyper =
  lr :: real
  betas :: "real \<times> real"
  eps :: real
  weight_decay :: real
  amsgrad :: bool

record 's optimizer =
  params :: "string list"
  defaults :: hyper
  state :: "string \<Rightarrow> 's option"

record 's optimizer_state =
  saved_state :: "'s option list"
  saved_group :: hyper
  saved_params :: "nat list"

definition Adam :: "string list \<Rightarrow> hyper \<Rightarrow> error + 's optimizer" where
  "Adam ps h =
     (if ps = [] then Inl (ValueError ''optimizer got an empty parameter list'')
      else if lr h < 0 then Inl (ValueError ''Invalid learning rate'')
      else Inr \<lparr>params = ps, defaults = h, state = (\<lambda>_. None)\<rparr>)"

definition optimizer_state_dict :: "'s optimizer \<Rightarrow> 's optimizer_state" where
  "optimizer_state_dict opt =
     \<lparr>saved_state = map (state opt) (params opt), saved_group = defaults opt,
      saved_params = [0 ..< length (params opt)]\<rparr>"

definition optimizer_load_state_dict ::
  "'s optimizer \<Rightarrow> 's optimizer_state \<Rightarrow> error + 's optimizer" where
  "optimizer_load_state_dict opt sd =
     (if length (saved_params sd) = length (params opt)
      then Inr (opt\<lparr>defaults := saved_group sd,
                   state := (\<lambda>n. case map_of (zip (params opt) (saved_state sd)) n of
                                   None \<Rightarrow> None | Some s \<Rightarrow> s)\<rparr>)
      else Inl (ValueError ''loaded state dict contains a parameter group that does not match the size of the group of the optimizer''))"

section \<open>Snapshots\<close>

text \<open>Values have no identity here: a deep copy of a value is the value.\<close>

definition deepcopy :: "'a \<Rightarrow> 'a" where
  "deepcopy v = v"

definition copy_model_and_optimizer ::
  "'t module \<Rightarrow> 's optimizer \<Rightarrow> (string \<times> 't) list \<times> 's optimizer_state" where
  "copy_model_and_optimizer model opt =
     (let model_state = deepcopy (state_dict model);
          optimizer_state = deepcopy (optimizer_state_dict opt)
      in (model_state, optimizer_state))"

definition load_model_and_optimizer ::
  "'t module \<Rightarrow> 's optimizer \<Rightarrow> (string \<times> 't) list \<Rightarrow> 's optimizer_state \<Rightarrow>
     error + ('t module \<times> 's optimizer)" where
  "load_model_and_optimizer model opt model_state optimizer_state =
     (case load_state_dict model model_state of
        Inl e \<Rightarrow> Inl e
      | Inr model' \<Rightarrow>
          (case optimizer_load_state_dict opt optimizer_state of
             Inl e \<Rightarrow> Inl e
           | Inr opt' \<Rightarrow> Inr (model', opt')))"

section \<open>The adaptation step\<close>

text \<open>
  What the tensor library computes in floating point is a parameter of the model, one
  record of functions:
  \<^item> \<open>net\<close>: the outputs of \<^verbatim>\<open>model(x)\<close>;
  \<^item> \<open>buffer_update\<close>: the new value a forward pass writes into the named buffer;
  \<^item> \<open>batch_nuclear_norm\<close>: the loss of the outputs (the source's function of that name:
    softmax, singular values, mean, square root);
  \<^item> \<open>autograd\<close>: the gradient of that loss with respect to the named parameter, None
    when the parameter is not in the graph;
  \<^item> \<open>accumulate\<close>: the sum \<^verbatim>\<open>backward()\<close> forms with a gradient already there;
  \<^item> \<open>adam\<close>: the update of one parameter from its state, tensor and gradient.

  The gradients (\<^verbatim>\<open>p.grad\<close>) live in a store of their own, by qualified parameter name.
\<close>

record ('t, 's, 'x, 'y, 'l) numerics =
  net :: "'t module \<Rightarrow> 'x \<Rightarrow> 'y"
  buffer_update :: "'t module \<Rightarrow> 'x \<Rightarrow> string \<Rightarrow> 't \<Rightarrow> 't"
  batch_nuclear_norm :: "'y \<Rightarrow> 'l"
  autograd :: "'l \<Rightarrow> 't module \<Rightarrow> 'x \<Rightarrow> string \<Rightarrow> 't option"
  accumulate :: "'t \<Rightarrow> 't \<Rightarrow> 't"
  adam :: "hyper \<Rightarrow> 's option \<Rightarrow> 't \<Rightarrow> 't \<Rightarrow> 't \<times> 's"

type_synonym 't grads = "string \<Rightarrow> 't option"

text \<open>
  The in-place effect of a forward pass: a \<^verbatim>\<open>BatchNorm2d\<close> writes its buffers only when it
  is training and tracks running statistics; any other layer may write its buffers.
\<close>

fun forward_buffers :: "(string \<Rightarrow> 't \<Rightarrow> 't) \<Rightarrow> string \<Rightarrow> 't module \<Rightarrow> 't module" where
  "forward_buffers f prefix (BatchNorm2d tr w b trs rm rv nbt) =
     (if tr \<and> trs
      then BatchNorm2d tr w b trs
             (map_option (f (qual prefix ''running_mean'')) rm)
             (map_option (f (qual prefix ''running_var'')) rv)
             (map_option (f (qual prefix ''num_batches_tracked'')) nbt)
      else BatchNorm2d tr w b trs rm rv nbt)"
| "forward_buffers f prefix (Module tr ps bs cs) =
     Module tr ps (map (\<lambda>(n, v). (n, f (qual prefix n) v)) bs)
       (map (\<lambda>(n, c). (n, forward_buffers f (qual prefix n) c)) cs)"

definition call_model ::
  "('t, 's, 'x, 'y, 'l) numerics \<Rightarrow> 't module \<Rightarrow> 'x \<Rightarrow> 'y \<times> 't module" where
  "call_model T model x = (net T model x, forward_buffers (buffer_update T model x) [] model)"

text \<open>\<^verbatim>\<open>loss.backward()\<close> adds to the gradient of every parameter of the graph that requires
  one.\<close>

definition backward ::
  "('t, 's, 'x, 'y, 'l) numerics \<Rightarrow> 'l \<Rightarrow> 't module \<Rightarrow> 'x \<Rightarrow> 't grads \<Rightarrow> 't grads" where
  "backward T loss model x G =
     (\<lambda>n. case map_of (named_parameters model) n of
             None \<Rightarrow> G n
           | Some p \<Rightarrow>
               if requires_grad p
               then (case autograd T loss model x n of
                       None \<Rightarrow> G n
                     | Some g \<Rightarrow>
                         Some (case G n of None \<Rightarrow> g | Some g0 \<Rightarrow> accumulate T g0 g))
               else G n)"

text \<open>\<^verbatim>\<open>optimizer.step()\<close> updates each of its parameters whose gradient is not None and
  skips the others; \<^verbatim>\<open>optimizer.zero_grad()\<close> sets the gradients of its parameters to None
  (its default, \<^verbatim>\<open>set_to_none=True\<close>).\<close>

definition optimizer_step ::
  "('t, 's, 'x, 'y, 'l) numerics \<Rightarrow> 's optimizer \<Rightarrow> 't module \<Rightarrow> 't grads \<Rightarrow>
     't module \<times> 's optimizer" where
  "optimizer_step T opt model G =
     (map_params
        (\<lambda>n p. if n \<in> set (params opt)
               then (case G n of
                       None \<Rightarrow> p
                     | Some g \<Rightarrow>
                         Param (fst (adam T (defaults opt) (state opt n) (data p) g))
                           (requires_grad p))
               else p) [] model,
      opt\<lparr>state :=
        (\<lambda>n. if n \<in> set (params opt)
             then (case G n of
                     None \<Rightarrow> state opt n
                   | Some g \<Rightarrow>
                       (case map_of (named_parameters model) n of
                          None \<Rightarrow> state opt n
                        | Some p \<Rightarrow>
                            Some (snd (adam T (defaults opt) (state opt n) (data p) g))))
             else state opt n)\<rparr>)"

definition zero_grad :: "'s optimizer \<Rightarrow> 't grads \<Rightarrow> 't grads" where
  "zero_grad opt G = (\<lambda>n. if n \<in> set (params opt) then None else G n)"

definition forward_and_adapt ::
  "('t, 's, 'x, 'y, 'l) numerics \<Rightarrow> 'x \<Rightarrow> 't module \<Rightarrow> 's optimizer \<Rightarrow> 't grads \<Rightarrow>
     'y \<times> 't module \<times> 's optimizer \<times> 't grads" where
  "forward_and_adapt T x model opt G =
     (let model = train True model;
          (outputs, model') = call_model T model x;
          loss = batch_nuclear_norm T outputs;
          G = backward T loss model x G;
          (model', opt) = optimizer_step T opt model' G;
          G = zero_grad opt G
      in (outputs, model', opt, G))"

definition forward_only ::
  "('t, 's, 'x, 'y, 'l) numerics \<Rightarrow> 'x \<Rightarrow> 't module \<Rightarrow> 'y \<times> 't module" where
  "forward_only T x model =
     (let model = train False model;
          (outputs, model') = call_model T model x
      in (outputs, model'))"

section \<open>The wrapper\<close>

record ('t, 's) BNM =
  model :: "'t module"
  optimizer :: "'s optimizer"
  steps :: int
  episodic :: bool
  model_state :: "(string \<times> 't) list option"
  optimizer_state :: "'s optimizer_state option"

definition BNM_init ::
  "'t module \<Rightarrow> 's optimizer \<Rightarrow> int \<Rightarrow> bool \<Rightarrow> error + ('t, 's) BNM" where
  "BNM_init m opt n ep =
     (if \<not> n > 0 then Inl (AssertionError ''BNM requires >= 1 step(s) to forward and update'')
      else
        let (ms, os) = copy_model_and_optimizer m opt
        in Inr \<lparr>model = m, optimizer = opt, steps = n, episodic = ep,
                model_state = Some ms, optimizer_state = Some os\<rparr>)"

definition reset :: "('t, 's) BNM \<Rightarrow> error + ('t, 's) BNM" where
  "reset w =
     (case (model_state w, optimizer_state w) of
        (Some ms, Some os) \<Rightarrow>
          (case load_model_and_optimizer (model w) (optimizer w) ms os of
             Inl e \<Rightarrow> Inl e
           | Inr (m, opt) \<Rightarrow> Inr (w\<lparr>model := m, optimizer := opt\<rparr>))
      | _ \<Rightarrow> Inl (Exception ''cannot reset without saved model/optimizer state''))"

text \<open>The loop \<^verbatim>\<open>for _ in range(self.steps): forward_and_adapt(x, self.model, self.optimizer)\<close>
  discards the outputs of each step and keeps the mutated model, optimizer and gradients.\<close>

definition adapt ::
  "('t, 's, 'x, 'y, 'l) numerics \<Rightarrow> 'x \<Rightarrow> 't module \<times> 's optimizer \<times> 't grads \<Rightarrow>
     't module \<times> 's optimizer \<times> 't grads" where
  "adapt T x s = (case s of (m, opt, G) \<Rightarrow> snd (forward_and_adapt T x m opt G))"

definition BNM_forward ::
  "('t, 's, 'x, 'y, 'l) numerics \<Rightarrow> ('t, 's) BNM \<Rightarrow> 'x \<Rightarrow> 't grads \<Rightarrow>
     error + ('y \<times> ('t, 's) BNM \<times> 't grads)" where
  "BNM_forward T w x G =
     (case (if episodic w then reset w else Inr w) of
        Inl e \<Rightarrow> Inl e
      | Inr w \<Rightarrow>
          let (m, opt, G) = fold (\<lambda>_. adapt T x) [0 ..< nat (steps w)] (model w, optimizer w, G);
              (outputs, m) = forward_only T x m
          in Inr (outputs, w\<lparr>model := m, optimizer := opt\<rparr>, G))"

text \<open>\<^verbatim>\<open>setup_bnm\<close> and \<^verbatim>\<open>setup_optimizer\<close>; \<^verbatim>\<open>args.lr\<close> is the only argument read.\<close>

definition setup_optimizer :: "string list \<Rightarrow> real \<Rightarrow> error + 's optimizer" where
  "setup_optimizer ps args_lr =
     Adam ps \<lparr>lr = args_lr, betas = (9 / 10, 999 / 1000), eps = 1 / 10 ^ 8,
              weight_decay = 0, amsgrad = False\<rparr>"

definition setup_bnm :: "'t module \<Rightarrow> real \<Rightarrow> error + ('t, 's) BNM" where
  "setup_bnm m args_lr =
     (let m = configure_model m;
          (ps, param_names) = collect_params m False
      in case setup_optimizer ps args_lr of
           Inl e \<Rightarrow> Inl e
         | Inr opt \<Rightarrow> BNM_init m opt 1 False)"

section \<open>Observations, invariants and reachable states\<close>

text \<open>The names of the parameters with gradients enabled, and the statistics mode of the
  normalization layers, in traversal order.\<close>

definition trainable :: "'t module \<Rightarrow> string list" where
  "trainable m = map fst (filter (\<lambda>(n, p). requires_grad p) (named_parameters m))"

definition norm_modes :: "'t module \<Rightarrow> (bool \<times> 't option \<times> 't option) list" where
  "norm_modes m =
     map (\<lambda>l. (track_running_stats l, running_mean l, running_var l))
       (filter is_BatchNorm2d (modules m))"

text \<open>The keys of the state dictionary below a prefix.\<close>

definition keys_from :: "string \<Rightarrow> 't module \<Rightarrow> string list" where
  "keys_from prefix m = map fst (state_dict_from prefix m)"

text \<open>
  The skeleton of a model: its tree with every tensor erased and every layer put in
  training mode. It keeps the names, which entries are None, the flags \<^verbatim>\<open>requires_grad\<close>
  and \<^verbatim>\<open>track_running_stats\<close>. \<open>fill\<close> rebuilds a model from a skeleton and a state
  dictionary that has all its keys; both serve the proofs only.
\<close>

definition skeleton :: "'t module \<Rightarrow> unit module" where
  "skeleton m = map_module (\<lambda>_. ()) (train True m)"



text \<open>
  A wrapper is consistent when it holds a snapshot whose keys are those of its model and
  whose parameter group has the size of the optimizer's. \<open>sig\<close> collects what no call
  changes. \<open>constructed\<close> are the wrappers that \<^verbatim>\<open>BNM.__init__\<close> returns, and those they
  become by calls of \<^verbatim>\<open>forward\<close> and \<^verbatim>\<open>reset\<close>. \<open>predictions\<close> runs consecutive calls
  of \<^verbatim>\<open>forward\<close> on one batch and lists what they return.
\<close>

definition consistent :: "('t, 's) BNM \<Rightarrow> bool" where
  "consistent w =
     (case (model_state w, optimizer_state w) of
        (Some ms, Some os) \<Rightarrow>
          set (map fst ms) = set (map fst (state_dict (model w))) \<and>
          length (saved_params os) = length (params (optimizer w))
      | _ \<Rightarrow> False)"

definition sig ::
  "('t, 's) BNM \<Rightarrow> unit module \<times> string list \<times> string list \<times> int \<times> bool \<times>
     (string \<times> 't) list option \<times> 's optimizer_state option" where
  "sig w = (skeleton (model w), keys_from [] (model w), params (optimizer w), steps w,
            episodic w, model_state w, optimizer_state w)"

inductive constructed :: "('t, 's, 'x, 'y, 'l) numerics \<Rightarrow> ('t, 's) BNM \<Rightarrow> bool" for T where
  constructed_init: "BNM_init m opt n ep = Inr w \<Longrightarrow> constructed T w"
| constructed_forward:
    "constructed T w \<Longrightarrow> BNM_forward T w x G = Inr (y, w', G') \<Longrightarrow> constructed T w'"
| constructed_reset: "constructed T w \<Longrightarrow> reset w = Inr w' \<Longrightarrow> constructed T w'"


section \<open>A small instance\<close>

text \<open>A small network used to run the definitions: a layer with one parameter and one
  buffer, holding a batch-norm layer with running statistics and a linear layer.\<close>

definition toy :: "int module" where
  "toy = Module False [(''w'', Param 3 True)] [(''buf'', 7)]
           [(''bn'', BatchNorm2d False (Some (Param 1 False)) (Some (Param 0 False)) True
                      (Some 5) (Some 6) (Some 2)),
            (''fc'', Module False [(''weight'', Param 4 True), (''bias'', Param 2 True)] [] [])]"

text \<open>
  Toy numerics on integer tensors: the outputs are the batch times the sum of all
  parameters, every forward pass adds one to each buffer it writes, the loss is the negated
  output, its gradient is minus the batch for every parameter, gradients add up, and the
  update subtracts the gradient and counts the steps in the optimizer state.
\<close>

definition T0 :: "(int, nat, int, int, int) numerics" where
  "T0 = \<lparr>net = (\<lambda>m x. x * sum_list (map (\<lambda>(n, p). data p) (named_parameters m))),
         buffer_update = (\<lambda>m x n v. v + 1),
         batch_nuclear_norm = (\<lambda>y. - y),
         autograd = (\<lambda>l m x n. Some (- x)),
         accumulate = (\<lambda>a b. a + b),
         adam = (\<lambda>h s p g. (p - g, Suc (case s of None \<Rightarrow> 0 | Some k \<Rightarrow> k)))\<rparr>"

definition toy_optimizer :: "string list \<Rightarrow> nat optimizer" where
  "toy_optimizer ps =
     \<lparr>params = ps,
      defaults = \<lparr>lr = 1 / 1000, betas = (9 / 10, 999 / 1000), eps = 1 / 10 ^ 8,
                  weight_decay = 0, amsgrad = False\<rparr>,
      state = (\<lambda>_. None)\<rparr>"

definition episodic_toy :: "(int, nat) BNM" where
  "episodic_toy =
     \<lparr>model = configure_model toy, optimizer = toy_optimizer [''bn.weight'', ''bn.bias''],
      steps = 1, episodic = True,
      model_state = Some (state_dict (configure_model toy)),
      optimizer_state = Some (optimizer_state_dict (toy_optimizer [''bn.weight'', ''bn.bias'']))\<rparr>"

definition continual_toy :: "(int, nat) BNM" where
  "continual_toy =
     \<lparr>model = configure_model toy,
      optimizer = toy_optimizer [''w'', ''bn.weight'', ''bn.bias'', ''fc.weight'', ''fc.bias''],
      steps = 1, episodic = False,
      model_state = Some (state_dict (configure_model toy)),
      optimizer_state = Some (optimizer_state_dict
        (toy_optimizer [''w'', ''bn.weight'', ''bn.bias'', ''fc.weight'', ''fc.bias'']))\<rparr>"

lemmas toy_eval = toy_def configure_model_def set_requires_grad_def qual_def
  named_parameters_def named_parameters_from_def setup_bnm_def collect_params_def
  setup_optimizer_def Adam_def BNM_init_def copy_model_and_optimizer_def deepcopy_def
  state_dict_def state_dict_from_def own_state_def optimizer_state_dict_def
  forward_and_adapt_def call_model_def backward_def optimizer_step_def zero_grad_def
  T0_def forward_only_def BNM_forward_def adapt_def reset_def load_model_and_optimizer_def
  load_state_dict_def optimizer_load_state_dict_def load_param_def load_buffer_def
  toy_optimizer_def episodic_toy_def continual_toy_def

section \<open>Facts about the tree operations\<close>

lemma named_modules_train:
  "named_modules prefix (train mode m) =
     map (\<lambda>(n, l). (n, train mode l)) (named_modules prefix m)"
  by (induction prefix m rule: named_modules.induct)
     (auto simp: map_concat comp_def case_prod_unfold intro!: arg_cong[where f=concat])

lemma named_modules_map_params:
  "named_modules prefix (map_params f prefix m) =
     map (\<lambda>(n, l). (n, map_params f n l)) (named_modules prefix m)"
  by (induction prefix m rule: named_modules.induct)
     (auto simp: map_concat comp_def case_prod_unfold intro!: arg_cong[where f=concat])

lemma named_modules_configure_norm:
  "named_modules prefix (configure_norm m) =
     map (\<lambda>(n, l). (n, configure_norm l)) (named_modules prefix m)"
  by (induction prefix m rule: named_modules.induct)
     (auto simp: map_concat comp_def case_prod_unfold Let_def intro!: arg_cong[where f=concat])

lemma own_parameters_train [simp]: "own_parameters (train mode l) = own_parameters l"
  by (cases l) auto

lemma is_BatchNorm2d_train [simp]: "is_BatchNorm2d (train mode l) = is_BatchNorm2d l"
  by (cases l) auto

lemma is_BatchNorm2d_map_params [simp]: "is_BatchNorm2d (map_params f n l) = is_BatchNorm2d l"
  by (cases l) auto

lemma is_BatchNorm2d_configure_norm [simp]:
  "is_BatchNorm2d (configure_norm l) = is_BatchNorm2d l"
  by (cases l) (auto simp: Let_def)

lemma own_parameters_map_params:
  "own_parameters (map_params f n l) = map (\<lambda>(k, p). (k, f (qual n k) p)) (own_parameters l)"
  by (cases l) (auto split: option.splits)

section \<open>Facts about state dictionaries\<close>

lemma named_modules_forward_buffers:
  "named_modules prefix (forward_buffers f prefix m) =
     map (\<lambda>(n, l). (n, forward_buffers f n l)) (named_modules prefix m)"
  by (induction prefix m rule: named_modules.induct)
     (auto simp: map_concat comp_def case_prod_unfold intro!: arg_cong[where f=concat])

lemma named_modules_load:
  "named_modules prefix (load_from_state_dict sd prefix m) =
     map (\<lambda>(n, l). (n, load_from_state_dict sd n l)) (named_modules prefix m)"
  by (induction prefix m rule: named_modules.induct)
     (auto simp: map_concat comp_def case_prod_unfold intro!: arg_cong[where f=concat])

lemma data_load_param: "data (load_param sd k p) = load_buffer sd k (data p)"
  by (simp add: load_param_def load_buffer_def split: option.splits)

lemma requires_grad_load_param [simp]: "requires_grad (load_param sd k p) = requires_grad p"
  by (simp add: load_param_def split: option.splits)

lemma own_state_load:
  "map (\<lambda>(k, v). (qual n k, v)) (own_state (load_from_state_dict sd n l)) =
   map (\<lambda>(k, v). (k, load_buffer sd k v)) (map (\<lambda>(k, v). (qual n k, v)) (own_state l))"
  by (cases l) (auto simp: own_state_def data_load_param split: option.splits)

lemma state_dict_from_load:
  "state_dict_from prefix (load_from_state_dict sd prefix m) =
     map (\<lambda>(k, v). (k, load_buffer sd k v)) (state_dict_from prefix m)"
  by (simp add: state_dict_from_def named_modules_load map_concat comp_def case_prod_unfold
        own_state_load[unfolded case_prod_unfold])

lemma own_state_train [simp]: "own_state (train mode l) = own_state l"
  by (cases l) (auto simp: own_state_def)

lemma own_keys_map_params:
  "map (\<lambda>x. g (fst x)) (own_state (map_params f n l)) = map (\<lambda>x. g (fst x)) (own_state l)"
  by (cases l) (auto simp: own_state_def split: option.splits)

lemma own_keys_forward_buffers:
  "map (\<lambda>x. g (fst x)) (own_state (forward_buffers f n l)) =
   map (\<lambda>x. g (fst x)) (own_state l)"
  by (cases l) (auto simp: own_state_def split: option.splits)

lemma keys_from_alt:
  "keys_from prefix m =
     concat (map (\<lambda>(nm, l). map (qual nm) (map fst (own_state l))) (named_modules prefix m))"
  by (simp add: keys_from_def state_dict_from_def map_concat comp_def case_prod_unfold)

lemma keys_from_train: "keys_from prefix (train mode m) = keys_from prefix m"
  by (simp add: keys_from_alt named_modules_train comp_def case_prod_unfold)

lemma keys_from_map_params: "keys_from prefix (map_params f prefix m) = keys_from prefix m"
  by (simp add: keys_from_alt named_modules_map_params comp_def case_prod_unfold
        own_keys_map_params)

lemma keys_from_forward_buffers:
  "keys_from prefix (forward_buffers f prefix m) = keys_from prefix m"
  by (simp add: keys_from_alt named_modules_forward_buffers comp_def case_prod_unfold
        own_keys_forward_buffers)

lemma keys_from_load: "keys_from prefix (load_from_state_dict sd prefix m) = keys_from prefix m"
  by (simp add: keys_from_def state_dict_from_load comp_def case_prod_unfold)




lemma adapt_keys:
  "adapt T x (m, opt, G) = (m', opt', G') \<Longrightarrow>
     keys_from [] m' = keys_from [] m \<and> params opt' = params opt"
  by (auto simp: adapt_def forward_and_adapt_def call_model_def optimizer_step_def Let_def
        keys_from_map_params keys_from_forward_buffers keys_from_train)

lemma forward_only_keys: "keys_from [] (snd (forward_only T x m)) = keys_from [] m"
  by (simp add: forward_only_def call_model_def Let_def keys_from_forward_buffers keys_from_train)


section \<open>Facts about the parameters after a step\<close>

lemma own_parameters_forward_buffers [simp]:
  "own_parameters (forward_buffers f n l) = own_parameters l"
  by (cases l) auto

lemma named_parameters_map_params:
  "named_parameters (map_params f [] m) = map (\<lambda>(k, q). (k, f k q)) (named_parameters m)"
  by (simp add: named_parameters_def named_parameters_from_def named_modules_map_params
        own_parameters_map_params map_concat comp_def case_prod_unfold)

lemma named_parameters_forward_buffers [simp]:
  "named_parameters (forward_buffers f [] m) = named_parameters m"
  by (simp add: named_parameters_def named_parameters_from_def named_modules_forward_buffers
        comp_def case_prod_unfold)

lemma named_parameters_train [simp]: "named_parameters (train b m) = named_parameters m"
  by (simp add: named_parameters_def named_parameters_from_def named_modules_train
        comp_def case_prod_unfold)

lemma forward_and_adapt_parameters:
  assumes "forward_and_adapt T x m opt G = (y, m', opt', G')"
  shows "named_parameters m' =
     map (\<lambda>(n, p). (n,
        if n \<in> set (params opt)
        then (case backward T (batch_nuclear_norm T y) (train True m) x G n of
                None \<Rightarrow> p
              | Some g \<Rightarrow> Param (fst (adam T (defaults opt) (state opt n) (data p) g))
                            (requires_grad p))
        else p)) (named_parameters m)"
  using assms
  by (auto simp: forward_and_adapt_def call_model_def optimizer_step_def Let_def
        named_parameters_map_params)

lemma backward_frozen:
  assumes "distinct (map fst (named_parameters m))" and "(n, p) \<in> set (named_parameters m)"
    and "\<not> requires_grad p"
  shows "backward T l (train True m) x G n = G n"
proof -
  from assms(1,2) have "map_of (named_parameters m) n = Some p" by simp
  with assms(3) show ?thesis by (simp add: backward_def)
qed

section \<open>Facts about skeletons\<close>

lemma train_train [simp]: "train b (train b' m) = train b m"
  by (induction m) (auto simp: comp_def case_prod_unfold)

lemma train_map_params: "train b (map_params f p m) = map_params f p (train b m)"
  by (induction m arbitrary: p) (auto simp: comp_def case_prod_unfold)


lemma map_module_train: "map_module f (train b m) = train b (map_module f m)"
  by (induction m) (auto simp: comp_def case_prod_unfold)

lemma map_param_unit: "map_param (\<lambda>_. ()) = (\<lambda>q. Param () (requires_grad q))"
proof
  fix q :: "'a param" show "map_param (\<lambda>_. ()) q = Param () (requires_grad q)" by (cases q) simp
qed

lemma erase_map_params:
  "(\<And>n q. requires_grad (f n q) = requires_grad q) \<Longrightarrow>
     map_module (\<lambda>_. ()) (map_params f p m) = map_module (\<lambda>_. ()) m"
  by (induction m arbitrary: p)
     (auto simp: comp_def case_prod_unfold map_param_unit option.map_comp)

lemma erase_forward_buffers:
  "map_module (\<lambda>_. ()) (forward_buffers f p m) = map_module (\<lambda>_. ()) m"
  by (induction m arbitrary: p)
     (auto simp: comp_def case_prod_unfold option.map_comp)

lemma erase_load:
  "map_module (\<lambda>_. ()) (load_from_state_dict sd p m) = map_module (\<lambda>_. ()) m"
  by (induction m arbitrary: p)
     (auto simp: comp_def case_prod_unfold map_param_unit option.map_comp)

lemma skeleton_train [simp]: "skeleton (train b m) = skeleton m"
  by (simp add: skeleton_def)

lemma skeleton_map_params:
  "(\<And>n q. requires_grad (f n q) = requires_grad q) \<Longrightarrow> skeleton (map_params f p m) = skeleton m"
  by (simp add: skeleton_def map_module_train erase_map_params)

lemma skeleton_forward_buffers [simp]: "skeleton (forward_buffers f p m) = skeleton m"
  by (simp add: skeleton_def map_module_train erase_forward_buffers)

lemma skeleton_load [simp]: "skeleton (load_from_state_dict sd p m) = skeleton m"
  by (simp add: skeleton_def map_module_train erase_load)








section \<open>Facts about the wrapper\<close>

lemma fold_const: "fold (\<lambda>_. f) xs s = (f ^^ length xs) s"
  by (induction xs arbitrary: s) (simp_all add: funpow_swap1)

lemma consistent_sig: "sig w' = sig w \<Longrightarrow> consistent w' = consistent w"
  by (auto simp: sig_def consistent_def keys_from_def state_dict_def split: option.splits)

lemma init_consistent:
  "BNM_init m opt n ep = Inr w \<Longrightarrow> consistent w \<and> 0 < steps w \<and> episodic w = ep"
  by (auto simp: BNM_init_def consistent_def copy_model_and_optimizer_def deepcopy_def
        optimizer_state_dict_def split: if_splits)

lemma reset_consistent:
  assumes "consistent w"
  obtains ms os where "model_state w = Some ms" and "optimizer_state w = Some os"
    and "set (keys_from [] (model w)) = fst ` set ms"
    and "reset w =
           Inr (w\<lparr>model := load_from_state_dict ms [] (model w),
                  optimizer := (optimizer w)\<lparr>defaults := saved_group os,
                    state := (\<lambda>n. case map_of (zip (params (optimizer w)) (saved_state os)) n of
                                    None \<Rightarrow> None | Some s \<Rightarrow> s)\<rparr>\<rparr>)"
proof -
  from assms obtain ms os where s: "model_state w = Some ms" "optimizer_state w = Some os"
    and k: "set (map fst ms) = set (map fst (state_dict (model w)))"
    and l: "length (saved_params os) = length (params (optimizer w))"
    by (auto simp: consistent_def split: option.splits)
  have f: "filter (\<lambda>k. k \<notin> set (map fst ms)) (map fst (state_dict (model w))) = []"
    "filter (\<lambda>k. k \<notin> set (map fst (state_dict (model w)))) (map fst ms) = []"
    using k by (auto simp: filter_empty_conv)
  have "reset w =
           Inr (w\<lparr>model := load_from_state_dict ms [] (model w),
                  optimizer := (optimizer w)\<lparr>defaults := saved_group os,
                    state := (\<lambda>n. case map_of (zip (params (optimizer w)) (saved_state os)) n of
                                    None \<Rightarrow> None | Some s \<Rightarrow> s)\<rparr>\<rparr>)"
    using s l f
    by (simp add: reset_def load_model_and_optimizer_def load_state_dict_def
          optimizer_load_state_dict_def Let_def)
  moreover have "set (keys_from [] (model w)) = fst ` set ms"
    using k by (simp add: keys_from_def state_dict_def)
  ultimately show ?thesis using that s by blast
qed

lemma reset_sig: "reset w = Inr w' \<Longrightarrow> sig w' = sig w"
  by (auto simp: reset_def load_model_and_optimizer_def load_state_dict_def
        optimizer_load_state_dict_def Let_def sig_def keys_from_load
        split: option.splits sum.splits if_splits)

lemma adapt_unfold:
  "adapt T x (m, opt, G) =
     (let M = train True m;
          M1 = forward_buffers (buffer_update T M x) [] M;
          G1 = backward T (batch_nuclear_norm T (net T M x)) M x G;
          r = optimizer_step T opt M1 G1
      in (fst r, snd r, zero_grad (snd r) G1))"
  by (simp add: adapt_def forward_and_adapt_def call_model_def Let_def split: prod.splits)

lemma optimizer_step_skeleton: "skeleton (fst (optimizer_step T opt m G)) = skeleton m"
  unfolding optimizer_step_def fst_conv
  by (rule skeleton_map_params) (simp split: option.splits)

lemma optimizer_step_params [simp]: "params (snd (optimizer_step T opt m G)) = params opt"
  by (simp add: optimizer_step_def)

lemma adapt_skeleton:
  "adapt T x (m, opt, G) = (m', opt', G') \<Longrightarrow> skeleton m' = skeleton m"
  by (auto simp: adapt_unfold Let_def optimizer_step_skeleton)

lemma forward_only_skeleton: "skeleton (snd (forward_only T x m)) = skeleton m"
  by (simp add: forward_only_def call_model_def Let_def)

lemma funpow_adapt_shape:
  "(adapt T x ^^ k) (m, opt, G) = (m', opt', G') \<Longrightarrow>
     skeleton m' = skeleton m \<and> keys_from [] m' = keys_from [] m \<and> params opt' = params opt"
proof (induction k arbitrary: m' opt' G')
  case 0
  then show ?case by simp
next
  case (Suc k)
  obtain m1 opt1 G1 where s: "(adapt T x ^^ k) (m, opt, G) = (m1, opt1, G1)"
    by (cases "(adapt T x ^^ k) (m, opt, G)")
  with Suc.prems have a: "adapt T x (m1, opt1, G1) = (m', opt', G')" by simp
  from Suc.IH [OF s] adapt_skeleton [OF a] adapt_keys [OF a] show ?case by simp
qed

lemma forward_sig:
  assumes "BNM_forward T w x G = Inr (y, w', G')"
  shows "sig w' = sig w"
proof -
  from assms obtain w0 where r: "(if episodic w then reset w else Inr w) = Inr w0"
    by (auto simp: BNM_forward_def split: sum.splits)
  then have s0: "sig w0 = sig w"
    by (auto simp: reset_sig split: if_splits)
  obtain m opt G1 where l:
    "(adapt T x ^^ nat (steps w0)) (model w0, optimizer w0, G) = (m, opt, G1)"
    by (cases "(adapt T x ^^ nat (steps w0)) (model w0, optimizer w0, G)")
  from assms r l have w': "w' = w0\<lparr>model := snd (forward_only T x m), optimizer := opt\<rparr>"
    by (auto simp: BNM_forward_def fold_const split: prod.splits)
  from funpow_adapt_shape [OF l] s0 show ?thesis
    by (simp add: w' sig_def forward_only_skeleton forward_only_keys)
qed

lemma constructed_consistent: "constructed T w \<Longrightarrow> consistent w \<and> 0 < steps w"
proof (induction rule: constructed.induct)
  case (constructed_init m opt n ep w)
  then show ?case using init_consistent by blast
next
  case (constructed_forward w x G y w' G')
  from forward_sig [OF constructed_forward.hyps(2)] constructed_forward.IH
  show ?case using consistent_sig by (auto simp: sig_def)
next
  case (constructed_reset w w')
  from reset_sig [OF constructed_reset.hyps(2)] constructed_reset.IH
  show ?case using consistent_sig by (auto simp: sig_def)
qed

section \<open>Two runs from equivalent states\<close>









section \<open>Facts about the configurator and the instance\<close>

lemma named_modules_configure_model:
  "named_modules [] (configure_model M) =
     map (\<lambda>(n, l). (n, configure_norm (map_params (\<lambda>_ p. Param (data p) False) n (train True l))))
       (named_modules [] M)"
  by (simp add: configure_model_def set_requires_grad_def named_modules_configure_norm
        named_modules_map_params named_modules_train case_prod_unfold comp_def)

lemma configured_layer:
  "l' = configure_norm (map_params (\<lambda>_ p. Param (data p) False) n (train True l)) \<Longrightarrow>
   (\<forall>(np, p) \<in> set (own_parameters l'). requires_grad p = is_BatchNorm2d l') \<and>
   (is_BatchNorm2d l' \<longrightarrow>
      \<not> track_running_stats l' \<and> running_mean l' = None \<and> running_var l' = None)"
  by (cases l) (auto simp: Let_def set_requires_grad_def split: option.splits)

text \<open>Configuring an already configured subtree changes nothing, whatever the prefixes.\<close>

lemma configure_twice:
  "configure_norm (map_params (\<lambda>_ p. Param (data p) False) q (train True
     (configure_norm (map_params (\<lambda>_ p. Param (data p) False) r (train True m))))) =
   configure_norm (map_params (\<lambda>_ p. Param (data p) False) r (train True m))"
proof (induction m arbitrary: q r)
  case (BatchNorm2d tr w b trs rm rv nbt)
  show ?case
    by (cases w; cases b) (simp_all add: Let_def set_requires_grad_def)
next
  case (Module tr ps bs cs)
  have "\<And>n c. (n, c) \<in> set cs \<Longrightarrow>
      configure_norm (map_params (\<lambda>_ p. Param (data p) False) (qual q n) (train True
        (configure_norm (map_params (\<lambda>_ p. Param (data p) False) (qual r n) (train True c))))) =
      configure_norm (map_params (\<lambda>_ p. Param (data p) False) (qual r n) (train True c))"
    using Module.IH by force
  then show ?case
    by (auto simp: comp_def case_prod_unfold)
qed

lemma setup_bnm_toy: "setup_bnm toy (1 / 1000) = Inr continual_toy"
  by (simp add: toy_eval)

lemma init_toy:
  "BNM_init (configure_model toy) (toy_optimizer [''bn.weight'', ''bn.bias'']) 1 True =
     Inr episodic_toy"
  by (simp add: toy_eval)

section \<open>The claims\<close>

text \<open>
  C1. After \<^verbatim>\<open>configure_model\<close>, in every layer of the model a parameter has gradients
  enabled exactly when the layer is a \<^verbatim>\<open>BatchNorm2d\<close> (whose parameters are its scale and
  shift), and every \<^verbatim>\<open>BatchNorm2d\<close> has \<^verbatim>\<open>track_running_stats\<close> off and both running
  estimates set to None.
\<close>

theorem configure_model_trainable:
  "\<forall>(nm, l) \<in> set (named_modules [] (configure_model M)).
     (\<forall>(np, p) \<in> set (own_parameters l). requires_grad p = is_BatchNorm2d l) \<and>
     (is_BatchNorm2d l \<longrightarrow>
        \<not> track_running_stats l \<and> running_mean l = None \<and> running_var l = None)"
  unfolding named_modules_configure_model using configured_layer by fastforce

theorem configure_model_trainable_witness:
  "(''bn'', BatchNorm2d True (Some (Param 1 True)) (Some (Param 0 True)) False None None (Some 2))
     \<in> set (named_modules [] (configure_model toy)) \<and>
   (''fc'', Module True [(''weight'', Param 4 False), (''bias'', Param 2 False)] [] [])
     \<in> set (named_modules [] (configure_model toy)) \<and>
   map (\<lambda>(n, p). (n, requires_grad p)) (named_parameters (configure_model toy)) =
     [(''w'', False), (''bn.weight'', True), (''bn.bias'', True),
      (''fc.weight'', False), (''fc.bias'', False)]"
proof -
  let ?bn = "BatchNorm2d True (Some (Param 1 True)) (Some (Param (0::int) True)) False None None
               (Some 2)"
  have mem: "(''bn'', ?bn) \<in> set (named_modules [] (configure_model toy))"
    by (simp add: toy_def configure_model_def set_requires_grad_def qual_def)
  from configure_model_trainable [of toy] mem
  have "\<not> track_running_stats ?bn \<and> running_mean ?bn = None"
    by fastforce
  then show ?thesis
    by (simp add: toy_def configure_model_def set_requires_grad_def qual_def
          named_parameters_def named_parameters_from_def)
qed





text \<open>
  C5 (amended). \<^verbatim>\<open>setup_bnm\<close> binds the optimizer to every parameter of the configured
  model, the frozen ones included. An adaptation step keeps every name and every flag
  \<^verbatim>\<open>requires_grad\<close>, and leaves unchanged every parameter that is not bound to the
  optimizer and every frozen parameter that holds no gradient when the step starts
  (parameter names being distinct).
\<close>

theorem optimizer_binding_and_frame:
  "(setup_bnm m0 args_lr = Inr w \<longrightarrow>
      model w = configure_model m0 \<and>
      params (optimizer w) = map fst (named_parameters (configure_model m0))) \<and>
   (distinct (map fst (named_parameters m)) \<and>
    forward_and_adapt T x m opt G = (y, m', opt', G') \<longrightarrow>
      list_all2 (\<lambda>(n, p) (n', p'). n' = n \<and> requires_grad p' = requires_grad p \<and>
                   (n \<notin> set (params opt) \<longrightarrow> p' = p) \<and>
                   (\<not> requires_grad p \<and> G n = None \<longrightarrow> p' = p))
        (named_parameters m) (named_parameters m'))"
proof (intro conjI impI)
  assume "setup_bnm m0 args_lr = Inr w"
  then show "model w = configure_model m0"
    by (auto simp: setup_bnm_def collect_params_def setup_optimizer_def Adam_def BNM_init_def
          copy_model_and_optimizer_def Let_def split: if_splits sum.splits prod.splits)
next
  assume "setup_bnm m0 args_lr = Inr w"
  then show "params (optimizer w) = map fst (named_parameters (configure_model m0))"
    by (auto simp: setup_bnm_def collect_params_def setup_optimizer_def Adam_def BNM_init_def
          copy_model_and_optimizer_def Let_def comp_def case_prod_unfold
          split: if_splits sum.splits prod.splits)
next
  assume a: "distinct (map fst (named_parameters m)) \<and>
    forward_and_adapt T x m opt G = (y, m', opt', G')"
  then have d: "distinct (map fst (named_parameters m))"
    and f: "forward_and_adapt T x m opt G = (y, m', opt', G')" by simp_all
  show "list_all2 (\<lambda>(n, p) (n', p'). n' = n \<and> requires_grad p' = requires_grad p \<and>
                   (n \<notin> set (params opt) \<longrightarrow> p' = p) \<and>
                   (\<not> requires_grad p \<and> G n = None \<longrightarrow> p' = p))
        (named_parameters m) (named_parameters m')"
    unfolding forward_and_adapt_parameters [OF f] list_all2_map2 list_all2_same
    by (auto simp: backward_frozen [OF d] split: option.splits if_splits)
qed

theorem optimizer_binding_and_frame_witness:
  "setup_bnm toy (1 / 1000) = Inr continual_toy \<and>
   params (optimizer continual_toy) =
     [''w'', ''bn.weight'', ''bn.bias'', ''fc.weight'', ''fc.bias''] \<and>
   distinct (map fst (named_parameters (configure_model toy))) \<and>
   map (\<lambda>(n, p). (n, data p)) (named_parameters (fst (snd
     (forward_and_adapt T0 1 (configure_model toy) (optimizer continual_toy) (\<lambda>_. None))))) =
     [(''w'', 3), (''bn.weight'', 2), (''bn.bias'', 1), (''fc.weight'', 4), (''fc.bias'', 2)]"
proof -
  let ?r = "forward_and_adapt T0 1 (configure_model toy) (optimizer continual_toy) (\<lambda>_. None)"
  have r: "?r = (fst ?r, fst (snd ?r), fst (snd (snd ?r)), snd (snd (snd ?r)))" by simp
  have d: "distinct (map fst (named_parameters (configure_model toy)))"
    by (simp add: toy_eval)
  from optimizer_binding_and_frame [of toy "1 / 1000" continual_toy "configure_model toy" T0 1
      "optimizer continual_toy" "\<lambda>_. None" "fst ?r" "fst (snd ?r)" "fst (snd (snd ?r))"
      "snd (snd (snd ?r))"] setup_bnm_toy d r
  have b: "params (optimizer continual_toy) = map fst (named_parameters (configure_model toy))"
    and f: "list_all2 (\<lambda>(n, p) (n', p'). n' = n \<and> requires_grad p' = requires_grad p \<and>
                   (n \<notin> set (params (optimizer continual_toy)) \<longrightarrow> p' = p) \<and>
                   (\<not> requires_grad p \<and> (\<lambda>_. None) n = (None :: int option) \<longrightarrow> p' = p))
        (named_parameters (configure_model toy)) (named_parameters (fst (snd ?r)))"
    by blast+
  have v: "map (\<lambda>(n, p). (n, data p)) (named_parameters (fst (snd ?r))) =
     [(''w'', 3), (''bn.weight'', 2), (''bn.bias'', 1), (''fc.weight'', 4), (''fc.bias'', 2)]"
    by (simp add: toy_eval Let_def)
  from b have "params (optimizer continual_toy) =
     [''w'', ''bn.weight'', ''bn.bias'', ''fc.weight'', ''fc.bias'']"
    by (simp add: toy_eval)
  with setup_bnm_toy d v show ?thesis by simp
qed

text \<open>
  Without the amendments the statement fails on the instance: the optimizer of
  \<^verbatim>\<open>setup_bnm\<close> holds all five parameters while the normalization layer has two, and a
  step changes the frozen parameter \<^verbatim>\<open>w\<close> when it holds a gradient from before.
\<close>

theorem optimizer_binding_counterexample:
  "map_sum id (\<lambda>w. params (optimizer w)) (setup_bnm toy (1 / 1000) :: error + (int, nat) BNM) =
     Inr [''w'', ''bn.weight'', ''bn.bias'', ''fc.weight'', ''fc.bias''] \<and>
   fst (collect_params (configure_model toy) True) = [''bn.weight'', ''bn.bias''] \<and>
   map (\<lambda>(n, p). (n, requires_grad p, data p)) (named_parameters (configure_model toy)) =
     [(''w'', False, 3), (''bn.weight'', True, 1), (''bn.bias'', True, 0),
      (''fc.weight'', False, 4), (''fc.bias'', False, 2)] \<and>
   map (\<lambda>(n, p). (n, requires_grad p, data p)) (named_parameters (fst (snd
     (forward_and_adapt T0 1 (configure_model toy) (optimizer continual_toy)
        ((\<lambda>_. None)(''w'' \<mapsto> 5)))))) =
     [(''w'', False, - 2), (''bn.weight'', True, 2), (''bn.bias'', True, 1),
      (''fc.weight'', False, 4), (''fc.bias'', False, 2)]"
  by (simp add: toy_eval Let_def)

text \<open>
  C6. \<^verbatim>\<open>check_model\<close> raises exactly when the model is not in training mode, or no
  parameter has gradients enabled, or all have, or there is no \<^verbatim>\<open>BatchNorm2d\<close>; the
  message is the one of the first condition that fails, in this order. Otherwise it
  returns. It returns no model: it only reads.
\<close>

theorem check_model_raises:
  "((\<exists>e. check_model M = Inl e) \<longleftrightarrow>
     (\<not> training M \<or>
      \<not> (\<exists>p \<in> set (parameters_of M). requires_grad p) \<or>
      (\<forall>p \<in> set (parameters_of M). requires_grad p) \<or>
      \<not> (\<exists>l \<in> set (modules M). is_BatchNorm2d l))) \<and>
   check_model M =
     (if \<not> training M
      then Inl (AssertionError ''BNM needs train mode: call model.train()'')
      else if \<not> (\<exists>p \<in> set (parameters_of M). requires_grad p)
      then Inl (AssertionError ''BNM needs params to update: check which require grad'')
      else if (\<forall>p \<in> set (parameters_of M). requires_grad p)
      then Inl (AssertionError ''BNM should not update all params: check which require grad'')
      else if \<not> (\<exists>l \<in> set (modules M). is_BatchNorm2d l)
      then Inl (AssertionError ''BNM needs normalization for its optimization'')
      else Inr ())"
  by (simp add: check_model_def Let_def list_ex_iff list_all_iff)

theorem check_model_raises_witness:
  "check_model (configure_model toy) = Inr () \<and>
   training (configure_model toy) \<and>
   Param 1 True \<in> set (parameters_of (configure_model toy)) \<and>
   Param 3 False \<in> set (parameters_of (configure_model toy)) \<and>
   is_BatchNorm2d (modules (configure_model toy) ! 1) \<and>
   \<not> training toy \<and>
   check_model toy = Inl (AssertionError ''BNM needs train mode: call model.train()'')"
proof -
  have t: "training (configure_model toy)" and nt: "\<not> training toy"
    by (simp_all add: toy_def configure_model_def set_requires_grad_def)
  have p1: "Param 1 True \<in> set (parameters_of (configure_model toy))"
    and p3: "Param 3 False \<in> set (parameters_of (configure_model toy))"
    by (simp_all add: toy_def configure_model_def set_requires_grad_def qual_def
          parameters_of_def named_parameters_def named_parameters_from_def)
  have bn: "is_BatchNorm2d (modules (configure_model toy) ! 1)"
    and len: "1 < length (modules (configure_model toy))"
    by (simp_all add: toy_def configure_model_def set_requires_grad_def modules_def)
  from bn len have ex: "\<exists>l \<in> set (modules (configure_model toy)). is_BatchNorm2d l"
    using nth_mem by blast
  have ok: "check_model (configure_model toy) = Inr ()"
    using check_model_raises [of "configure_model toy"] t p1 p3 ex by auto
  have bad: "check_model toy = Inl (AssertionError ''BNM needs train mode: call model.train()'')"
    using check_model_raises [of toy] nt by simp
  show ?thesis using ok bad t nt p1 p3 bn by simp
qed




text \<open>
  C8. \<^verbatim>\<open>forward_and_adapt\<close> returns the outputs of the network on the model as it is put
  in training mode at the start of the call, before any update; the optimizer step is
  taken with the gradients of the backward pass, and after the call no parameter of the
  optimizer holds a gradient.
\<close>

theorem forward_and_adapt_outputs:
  "forward_and_adapt T x m opt G = (y, m', opt', G') \<Longrightarrow>
     y = net T (train True m) x \<and>
     (m', opt') = optimizer_step T opt (snd (call_model T (train True m) x))
                    (backward T (batch_nuclear_norm T y) (train True m) x G) \<and>
     (\<forall>n \<in> set (params opt). G' n = None)"
  by (auto simp: forward_and_adapt_def call_model_def Let_def optimizer_step_def zero_grad_def
        split: prod.splits)

theorem forward_and_adapt_outputs_witness:
  "fst (forward_and_adapt T0 1 (configure_model toy) (optimizer continual_toy) (\<lambda>_. None)) = 10 \<and>
   net T0 (train True (configure_model toy)) 1 = 10 \<and>
   net T0 (fst (snd (forward_and_adapt T0 1 (configure_model toy) (optimizer continual_toy)
     (\<lambda>_. None)))) 1 = 12 \<and>
   snd (snd (snd (forward_and_adapt T0 1 (configure_model toy) (optimizer continual_toy)
     ((\<lambda>_. None)(''bn.bias'' \<mapsto> 4))))) ''bn.bias'' = None"
proof -
  let ?r = "forward_and_adapt T0 1 (configure_model toy) (optimizer continual_toy) (\<lambda>_. None)"
  let ?s = "forward_and_adapt T0 1 (configure_model toy) (optimizer continual_toy)
              ((\<lambda>_. None)(''bn.bias'' \<mapsto> 4))"
  have r: "?r = (fst ?r, fst (snd ?r), fst (snd (snd ?r)), snd (snd (snd ?r)))" by simp
  have s: "?s = (fst ?s, fst (snd ?s), fst (snd (snd ?s)), snd (snd (snd ?s)))" by simp
  have p: "''bn.bias'' \<in> set (params (optimizer continual_toy))"
    by (simp add: continual_toy_def toy_optimizer_def)
  from forward_and_adapt_outputs [OF r]
  have 1: "fst ?r = net T0 (train True (configure_model toy)) 1" by simp
  from forward_and_adapt_outputs [OF s] p
  have 2: "snd (snd (snd ?s)) ''bn.bias'' = None" by blast
  have 3: "net T0 (train True (configure_model toy)) 1 = 10"
    by (simp add: toy_eval)
  have 4: "net T0 (fst (snd ?r)) 1 = 12"
    by (simp add: toy_eval Let_def)
  from 1 2 3 4 show ?thesis by simp
qed

text \<open>
  C9. \<^verbatim>\<open>configure_model\<close> is idempotent: a second application returns the model of the
  first, so the trainable parameters and the statistics mode of the normalization layers
  are those of one application.
\<close>

theorem configure_model_idempotent:
  "configure_model (configure_model M) = configure_model M \<and>
   trainable (configure_model (configure_model M)) = trainable (configure_model M) \<and>
   norm_modes (configure_model (configure_model M)) = norm_modes (configure_model M)"
  by (simp add: configure_model_def set_requires_grad_def configure_twice)

text \<open>
  C10. A constructed wrapper always holds both snapshots, so \<^verbatim>\<open>reset\<close> never raises its
  missing-snapshot exception; it even returns.
\<close>

theorem reset_has_snapshot:
  assumes "constructed T w"
  shows "model_state w \<noteq> None \<and> optimizer_state w \<noteq> None \<and>
         reset w \<noteq> Inl (Exception ''cannot reset without saved model/optimizer state'') \<and>
         (\<exists>w'. reset w = Inr w')"
proof -
  from constructed_consistent [OF assms] have "consistent w" by simp
  then show ?thesis by (rule reset_consistent) auto
qed

theorem reset_has_snapshot_witness:
  "model_state episodic_toy \<noteq> None \<and> optimizer_state episodic_toy \<noteq> None \<and>
   reset episodic_toy \<noteq> Inl (Exception ''cannot reset without saved model/optimizer state'') \<and>
   map_sum id model (reset episodic_toy) = Inr (configure_model toy)"
proof -
  have c: "constructed T0 episodic_toy"
    using init_toy by (rule constructed_init)
  have "map_sum id model (reset episodic_toy) = Inr (configure_model toy)"
    by (simp add: toy_eval)
  with reset_has_snapshot [OF c] show ?thesis by simp
qed

end
